theory Spec2Isabelle
  imports Complex_Main "HOL-Library.Word"
begin

section \<open>Data model\<close>

text \<open>
  The handle of \<^verbatim>\<open>devbox.go\<close> wraps a pointer to a \<^verbatim>\<open>v1alpha2.Devbox\<close> record and a pointer
  to the SDK object, which owns the resource client and the cache. The records below carry
  the fields of the remote record that \<^verbatim>\<open>devbox.go\<close> reads or writes; resource quantities,
  the creation timestamp and the two port lists are read by accessors only and are left out.
\<close>

record NetworkStatus =
  net_Type :: string
  net_NodePort :: "32 word"
  net_UniqueID :: string

record DevboxStatus =
  status_Phase :: string
  status_Network :: NetworkStatus
  status_Node :: string

record DevboxConfig =
  config_WorkingDir :: string
  config_User :: string

record DevboxSpec =
  spec_State :: string
  spec_Image :: string
  spec_Config :: DevboxConfig

record DevboxCRD =
  crd_Name :: string
  crd_UID :: string
  crd_Spec :: DevboxSpec
  crd_Status :: DevboxStatus

record DevBoxReleaseSpec =
  rspec_DevboxName :: string
  rspec_Version :: string
  rspec_Notes :: string
  rspec_StartDevboxAfterRelease :: bool

record DevBoxReleaseStatus =
  rstatus_Phase :: string
  rstatus_SourceImage :: string
  rstatus_TargetImage :: string

record DevBoxRelease =
  rel_Name :: string
  rel_Spec :: DevBoxReleaseSpec
  rel_Status :: DevBoxReleaseStatus

record ReleaseConfig =
  cfg_Version :: string
  cfg_Notes :: string
  cfg_StartDevboxAfterRelease :: bool

text \<open>
  Modelled from the spec: the package \<^verbatim>\<open>api/v1alpha2\<close> that declares the string-typed
  enumerations is not among the sources. The desired states are the four values of section 4.3,
  the single ready phase is \<^verbatim>\<open>Running\<close>, and the network kinds are the ones the comment of
  \<^verbatim>\<open>NetworkType\<close> lists.
\<close>

definition DevboxPhaseRunning :: string where
  "DevboxPhaseRunning = ''Running''"

definition DevboxStateRunning :: string where
  "DevboxStateRunning = ''Running''"

definition DevboxStatePaused :: string where
  "DevboxStatePaused = ''Paused''"

definition DevboxStateStopped :: string where
  "DevboxStateStopped = ''Stopped''"

definition DevboxStateShutdown :: string where
  "DevboxStateShutdown = ''Shutdown''"

definition NetworkTypeNodePort :: string where
  "NetworkTypeNodePort = ''NodePort''"

definition NetworkTypeTailnet :: string where
  "NetworkTypeTailnet = ''Tailnet''"

definition NetworkTypeSSHGate :: string where
  "NetworkTypeSSHGate = ''SSHGate''"

text \<open>
  Go's \<^verbatim>\<open>error\<close> values. \<^verbatim>\<open>TimeoutError\<close> is the type declared in \<^verbatim>\<open>devbox.go\<close>, with its
  message and its timeout; the two
  context errors are what \<^verbatim>\<open>ctx.Err()\<close> can return; every other failure of the resource client
  is a \<^verbatim>\<open>TransportError\<close> with its text. A duration is a count of nanoseconds.
\<close>

datatype error =
    TimeoutError string int
  | Canceled
  | DeadlineExceeded
  | TransportError string

record Devbox =
  crd :: DevboxCRD

record Release =
  release_crd :: DevBoxRelease

record WaitForReadyOptions =
  opt_Timeout :: int
  opt_InitialCheckInterval :: int
  opt_MaxCheckInterval :: int
  opt_BackoffMultiplier :: rat
  opt_UseExponentialBackoff :: "bool option"
  opt_CheckInterval :: int

definition Millisecond :: int where
  "Millisecond = 1000000"

definition Second :: int where
  "Second = 1000000000"

section \<open>Collaborators and the world\<close>

text \<open>
  Every interaction of the code with something outside itself is recorded, in order, as an
  event: a reading of the clock, a call of the resource client with its arguments and its
  answer, and the \<^verbatim>\<open>select\<close> between the context's \<^verbatim>\<open>Done\<close> channel and the timer, with the
  interval of the timer and with \<^verbatim>\<open>Some (ctx.Err())\<close> when the context was done first.
\<close>

datatype event =
    ClockRead int
  | ClientGet string "error + DevboxCRD"
  | ClientUpdateState string string "error option"
  | ClientDelete string "error option"
  | ClientCreateRelease DevBoxRelease "error + DevBoxRelease"
  | Select int "error option"

text \<open>
  The collaborators are parameters: the resource client, the clock and the context answer as
  functions of a state \<open>'r\<close> of their own, which they may change. They never see the cache.
\<close>

record 'r collab =
  client_Get :: "string \<Rightarrow> 'r \<Rightarrow> (error + DevboxCRD) \<times> 'r"
  client_UpdateState :: "string \<Rightarrow> string \<Rightarrow> 'r \<Rightarrow> error option \<times> 'r"
  client_Delete :: "string \<Rightarrow> 'r \<Rightarrow> error option \<times> 'r"
  client_CreateRelease :: "DevBoxRelease \<Rightarrow> 'r \<Rightarrow> (error + DevBoxRelease) \<times> 'r"
  time_Now :: "'r \<Rightarrow> int \<times> 'r"
  ctx_select :: "int \<Rightarrow> 'r \<Rightarrow> error option \<times> 'r"

record 'r world =
  remote :: 'r
  cache :: "string \<rightharpoonup> DevboxCRD"
  trace :: "event list"

text \<open>
  Modelled from the spec: the cache type behind \<^verbatim>\<open>d.sdk.cache\<close> is not among the sources.
  Section 4.2: \<^verbatim>\<open>set\<close> upserts unconditionally, \<^verbatim>\<open>delete\<close> removes the entry if present and is
  a no-op otherwise.
\<close>

definition cache_Set :: "(string \<rightharpoonup> DevboxCRD) \<Rightarrow> string \<Rightarrow> DevboxCRD \<Rightarrow> (string \<rightharpoonup> DevboxCRD)" where
  "cache_Set c name v = c(name \<mapsto> v)"

definition cache_Delete :: "(string \<rightharpoonup> DevboxCRD) \<Rightarrow> string \<Rightarrow> (string \<rightharpoonup> DevboxCRD)" where
  "cache_Delete c name = c(name := None)"

definition call_Now :: "'r collab \<Rightarrow> 'r world \<Rightarrow> int \<times> 'r world" where
  "call_Now env w =
     (let (t, r) = time_Now env (remote w)
      in (t, w\<lparr>remote := r, trace := trace w @ [ClockRead t]\<rparr>))"

definition call_Get :: "'r collab \<Rightarrow> string \<Rightarrow> 'r world \<Rightarrow> (error + DevboxCRD) \<times> 'r world" where
  "call_Get env name w =
     (let (res, r) = client_Get env name (remote w)
      in (res, w\<lparr>remote := r, trace := trace w @ [ClientGet name res]\<rparr>))"

definition call_UpdateState ::
  "'r collab \<Rightarrow> string \<Rightarrow> string \<Rightarrow> 'r world \<Rightarrow> error option \<times> 'r world" where
  "call_UpdateState env name st w =
     (let (res, r) = client_UpdateState env name st (remote w)
      in (res, w\<lparr>remote := r, trace := trace w @ [ClientUpdateState name st res]\<rparr>))"

definition call_Delete :: "'r collab \<Rightarrow> string \<Rightarrow> 'r world \<Rightarrow> error option \<times> 'r world" where
  "call_Delete env name w =
     (let (res, r) = client_Delete env name (remote w)
      in (res, w\<lparr>remote := r, trace := trace w @ [ClientDelete name res]\<rparr>))"

definition call_CreateRelease ::
  "'r collab \<Rightarrow> DevBoxRelease \<Rightarrow> 'r world \<Rightarrow> (error + DevBoxRelease) \<times> 'r world" where
  "call_CreateRelease env rel w =
     (let (res, r) = client_CreateRelease env rel (remote w)
      in (res, w\<lparr>remote := r, trace := trace w @ [ClientCreateRelease rel res]\<rparr>))"

definition call_select :: "'r collab \<Rightarrow> int \<Rightarrow> 'r world \<Rightarrow> error option \<times> 'r world" where
  "call_select env interval w =
     (let (res, r) = ctx_select env interval (remote w)
      in (res, w\<lparr>remote := r, trace := trace w @ [Select interval res]\<rparr>))"

section \<open>The handle\<close>

subsection \<open>Accessors\<close>

definition Name :: "Devbox \<Rightarrow> string" where
  "Name d = crd_Name (crd d)"

definition UID :: "Devbox \<Rightarrow> string" where
  "UID d = crd_UID (crd d)"

definition Status :: "Devbox \<Rightarrow> string" where
  "Status d = status_Phase (crd_Status (crd d))"

definition State :: "Devbox \<Rightarrow> string" where
  "State d = spec_State (crd_Spec (crd d))"

definition Image :: "Devbox \<Rightarrow> string" where
  "Image d = spec_Image (crd_Spec (crd d))"

definition NetworkType :: "Devbox \<Rightarrow> string" where
  "NetworkType d = net_Type (status_Network (crd_Status (crd d)))"

definition NodePort :: "Devbox \<Rightarrow> 32 word" where
  "NodePort d = net_NodePort (status_Network (crd_Status (crd d)))"

definition NetworkUniqueID :: "Devbox \<Rightarrow> string" where
  "NetworkUniqueID d = net_UniqueID (status_Network (crd_Status (crd d)))"

definition Node :: "Devbox \<Rightarrow> string" where
  "Node d = status_Node (crd_Status (crd d))"

definition WorkingDir :: "Devbox \<Rightarrow> string" where
  "WorkingDir d = config_WorkingDir (spec_Config (crd_Spec (crd d)))"

definition User :: "Devbox \<Rightarrow> string" where
  "User d = config_User (spec_Config (crd_Spec (crd d)))"

definition CRD :: "Devbox \<Rightarrow> DevboxCRD" where
  "CRD d = crd d"

subsection \<open>The connection string\<close>

text \<open>
  \<^verbatim>\<open>string(rune(n))\<close> is the UTF-8 encoding of the code point \<open>n\<close>, and of U+FFFD when \<open>n\<close> is
  not a valid code point (negative, a surrogate, or above U+10FFFF).
\<close>

definition string_of_rune :: "int \<Rightarrow> string" where
  "string_of_rune r =
     (if r < 0 \<or> 1114111 < r \<or> (55296 \<le> r \<and> r \<le> 57343)
        then [char_of (239::int), char_of (191::int), char_of (189::int)]
      else if r \<le> 127 then [char_of r]
      else if r \<le> 2047 then [char_of (192 + r div 64), char_of (128 + r mod 64)]
      else if r \<le> 65535
        then [char_of (224 + r div 4096), char_of (128 + (r div 64) mod 64),
              char_of (128 + r mod 64)]
      else [char_of (240 + r div 262144), char_of (128 + (r div 4096) mod 64),
            char_of (128 + (r div 64) mod 64), char_of (128 + r mod 64)])"

definition SSHConnectionString :: "Devbox \<Rightarrow> string" where
  "SSHConnectionString d =
     (if net_Type (status_Network (crd_Status (crd d))) = NetworkTypeSSHGate
        then net_UniqueID (status_Network (crd_Status (crd d))) @ ''@bja.sealos.run''
      else if net_Type (status_Network (crd_Status (crd d))) = NetworkTypeNodePort
        then config_User (spec_Config (crd_Spec (crd d))) @ ''@<node-ip>:''
               @ string_of_rune (sint (net_NodePort (status_Network (crd_Status (crd d)))))
      else [])"

subsection \<open>Refresh and mutations\<close>

text \<open>
  A method with a pointer receiver takes the handle and the world and returns both, next to
  its \<^verbatim>\<open>error\<close> result (\<open>None\<close> is \<^verbatim>\<open>nil\<close>).
\<close>

definition RefreshInfo :: "'r collab \<Rightarrow> Devbox \<Rightarrow> 'r world \<Rightarrow> error option \<times> Devbox \<times> 'r world" where
  "RefreshInfo env d w =
     (case call_Get env (crd_Name (crd d)) w of
        (Inl err, w1) \<Rightarrow> (Some err, d, w1)
      | (Inr devbox, w1) \<Rightarrow>
          (let d1 = d\<lparr>crd := devbox\<rparr>
           in (None, d1, w1\<lparr>cache := cache_Set (cache w1) (crd_Name (crd d1)) devbox\<rparr>)))"

definition isReady :: "Devbox \<Rightarrow> bool" where
  "isReady d = (status_Phase (crd_Status (crd d)) = DevboxPhaseRunning)"

definition Start :: "'r collab \<Rightarrow> Devbox \<Rightarrow> 'r world \<Rightarrow> error option \<times> Devbox \<times> 'r world" where
  "Start env d w =
     (let (err, w1) = call_UpdateState env (crd_Name (crd d)) DevboxStateRunning w
      in (err, d, w1))"

definition Pause :: "'r collab \<Rightarrow> Devbox \<Rightarrow> 'r world \<Rightarrow> error option \<times> Devbox \<times> 'r world" where
  "Pause env d w =
     (let (err, w1) = call_UpdateState env (crd_Name (crd d)) DevboxStatePaused w
      in (err, d, w1))"

definition Stop :: "'r collab \<Rightarrow> Devbox \<Rightarrow> 'r world \<Rightarrow> error option \<times> Devbox \<times> 'r world" where
  "Stop env d w =
     (let (err, w1) = call_UpdateState env (crd_Name (crd d)) DevboxStateStopped w
      in (err, d, w1))"

definition Shutdown :: "'r collab \<Rightarrow> Devbox \<Rightarrow> 'r world \<Rightarrow> error option \<times> Devbox \<times> 'r world" where
  "Shutdown env d w =
     (let (err, w1) = call_UpdateState env (crd_Name (crd d)) DevboxStateShutdown w
      in (err, d, w1))"

definition Delete :: "'r collab \<Rightarrow> Devbox \<Rightarrow> 'r world \<Rightarrow> error option \<times> Devbox \<times> 'r world" where
  "Delete env d w =
     (case call_Delete env (crd_Name (crd d)) w of
        (Some err, w1) \<Rightarrow> (Some err, d, w1)
      | (None, w1) \<Rightarrow> (None, d, w1\<lparr>cache := cache_Delete (cache w1) (crd_Name (crd d))\<rparr>))"

subsection \<open>Releases\<close>

definition CreateRelease ::
  "'r collab \<Rightarrow> ReleaseConfig \<Rightarrow> Devbox \<Rightarrow> 'r world \<Rightarrow> (error + Release) \<times> Devbox \<times> 'r world" where
  "CreateRelease env cfg d w =
     (let release =
            \<lparr>rel_Name = crd_Name (crd d) @ ''-'' @ cfg_Version cfg,
             rel_Spec = \<lparr>rspec_DevboxName = crd_Name (crd d),
                         rspec_Version = cfg_Version cfg,
                         rspec_Notes = cfg_Notes cfg,
                         rspec_StartDevboxAfterRelease = cfg_StartDevboxAfterRelease cfg\<rparr>,
             rel_Status = \<lparr>rstatus_Phase = [], rstatus_SourceImage = [],
                           rstatus_TargetImage = []\<rparr>\<rparr>
      in case call_CreateRelease env release w of
           (Inl err, w1) \<Rightarrow> (Inl err, d, w1)
         | (Inr created, w1) \<Rightarrow> (Inr \<lparr>release_crd = created\<rparr>, d, w1))"

subsection \<open>Waiting for readiness\<close>

text \<open>
  The locals that \<^verbatim>\<open>WaitForReady\<close> computes from its options before the loop, one definition
  for each. \<^verbatim>\<open>BackoffMultiplier\<close> is a \<^verbatim>\<open>float64\<close>; it is modelled as a rational, and the
  product \<^verbatim>\<open>float64(interval) * backoffMultiplier\<close> as the exact product. The two agree
  whenever the exact product is a binary64 number. It is one under the default options: the
  multiplier is 1.5 and no interval exceeds five seconds, so the product is a multiple of one
  half below \<open>2 ^ 34\<close>. The conversion to \<^verbatim>\<open>time.Duration\<close> truncates towards zero. Times and
  durations are unbounded integers of nanoseconds; the 64 bits of the code are far from
  reached by the values of the properties below.
\<close>

definition wfr_timeout :: "WaitForReadyOptions \<Rightarrow> int" where
  "wfr_timeout opts = (if opt_Timeout opts = 0 then 300 * Second else opt_Timeout opts)"

definition wfr_initialInterval :: "WaitForReadyOptions \<Rightarrow> int" where
  "wfr_initialInterval opts =
     (if opt_InitialCheckInterval opts = 0 then 200 * Millisecond
      else opt_InitialCheckInterval opts)"

definition wfr_maxInterval :: "WaitForReadyOptions \<Rightarrow> int" where
  "wfr_maxInterval opts =
     (if opt_MaxCheckInterval opts = 0 then 5 * Second else opt_MaxCheckInterval opts)"

definition wfr_backoffMultiplier :: "WaitForReadyOptions \<Rightarrow> rat" where
  "wfr_backoffMultiplier opts =
     (if opt_BackoffMultiplier opts = 0 then 3 / 2 else opt_BackoffMultiplier opts)"

definition wfr_useExponentialBackoff :: "WaitForReadyOptions \<Rightarrow> bool" where
  "wfr_useExponentialBackoff opts =
     (if opt_CheckInterval opts > 0 then False
      else case opt_UseExponentialBackoff opts of None \<Rightarrow> True | Some b \<Rightarrow> b)"

definition wfr_interval :: "WaitForReadyOptions \<Rightarrow> int" where
  "wfr_interval opts =
     (if \<not> wfr_useExponentialBackoff opts \<and> opt_CheckInterval opts > 0
      then opt_CheckInterval opts else wfr_initialInterval opts)"

definition duration_of_float :: "rat \<Rightarrow> int" where
  "duration_of_float q = (if q < 0 then \<lceil>q\<rceil> else \<lfloor>q\<rfloor>)"

text \<open>The last statement of the loop body: the interval of the next iteration.\<close>

definition next_interval :: "bool \<Rightarrow> rat \<Rightarrow> int \<Rightarrow> int \<Rightarrow> int" where
  "next_interval useExponentialBackoff backoffMultiplier maxInterval interval =
     (if useExponentialBackoff
      then (let grown = duration_of_float (of_int interval * backoffMultiplier)
            in if grown > maxInterval then maxInterval else grown)
      else interval)"

text \<open>
  The loop has no bound of its own, so it takes fuel: one unit for each iteration. When the
  fuel is used up the loop is still running, and the handle and the world are the ones it
  has reached.
\<close>

datatype outcome = Returned "error option" | OutOfFuel

fun WaitForReady_loop ::
  "nat \<Rightarrow> 'r collab \<Rightarrow> int \<Rightarrow> int \<Rightarrow> int \<Rightarrow> rat \<Rightarrow> bool \<Rightarrow> int \<Rightarrow> Devbox \<Rightarrow> 'r world
     \<Rightarrow> outcome \<times> Devbox \<times> 'r world" where
  "WaitForReady_loop 0 env timeout deadline maxInterval backoffMultiplier
       useExponentialBackoff interval d w = (OutOfFuel, d, w)"
| "WaitForReady_loop (Suc fuel) env timeout deadline maxInterval backoffMultiplier
       useExponentialBackoff interval d w =
     (case call_Now env w of
        (now, w1) \<Rightarrow>
          if now > deadline
          then (Returned (Some (TimeoutError ''waiting for devbox to be ready'' timeout)), d, w1)
          else (case RefreshInfo env d w1 of
                  (Some err, d2, w2) \<Rightarrow> (Returned (Some err), d2, w2)
                | (None, d2, w2) \<Rightarrow>
                    if isReady d2 then (Returned None, d2, w2)
                    else (case call_select env interval w2 of
                            (Some err, w3) \<Rightarrow> (Returned (Some err), d2, w3)
                          | (None, w3) \<Rightarrow>
                              WaitForReady_loop fuel env timeout deadline maxInterval
                                backoffMultiplier useExponentialBackoff
                                (next_interval useExponentialBackoff backoffMultiplier
                                   maxInterval interval)
                                d2 w3)))"

definition WaitForReady ::
  "nat \<Rightarrow> 'r collab \<Rightarrow> WaitForReadyOptions \<Rightarrow> Devbox \<Rightarrow> 'r world
     \<Rightarrow> outcome \<times> Devbox \<times> 'r world" where
  "WaitForReady fuel env opts d w =
     (case call_Now env w of
        (now, w0) \<Rightarrow>
          WaitForReady_loop fuel env (wfr_timeout opts) (now + wfr_timeout opts)
            (wfr_maxInterval opts) (wfr_backoffMultiplier opts)
            (wfr_useExponentialBackoff opts) (wfr_interval opts) d w0)"

section \<open>Observations on a run\<close>

text \<open>
  The events a call has added to the trace, the deadline a call of \<^verbatim>\<open>WaitForReady\<close> computes
  from its first reading of the clock, and the intervals of the timers it has slept on.
\<close>

definition new_events :: "'r world \<Rightarrow> 'r world \<Rightarrow> event list" where
  "new_events w w' = drop (length (trace w)) (trace w')"

definition wfr_deadline :: "'r collab \<Rightarrow> WaitForReadyOptions \<Rightarrow> 'r world \<Rightarrow> int" where
  "wfr_deadline env opts w = fst (time_Now env (remote w)) + wfr_timeout opts"

fun sleep_intervals :: "event list \<Rightarrow> int list" where
  "sleep_intervals [] = []"
| "sleep_intervals (Select interval res # evs) = interval # sleep_intervals evs"
| "sleep_intervals (ev # evs) = sleep_intervals evs"

text \<open>
  The shape of the events that the loop adds, read off its body: each iteration reads the
  clock, then fetches, then sleeps, and stops at the first of these steps that makes the loop
  return. The parameters are the timeout, the deadline, the update of the interval and the
  interval of the first iteration.
\<close>

inductive wait_trace :: "int \<Rightarrow> int \<Rightarrow> (int \<Rightarrow> int) \<Rightarrow> int \<Rightarrow> event list \<Rightarrow> outcome \<Rightarrow> bool"
  for T :: int and dl :: int and step :: "int \<Rightarrow> int" where
  running: "wait_trace T dl step i [] OutOfFuel"
| expired: "dl < t \<Longrightarrow>
     wait_trace T dl step i [ClockRead t]
       (Returned (Some (TimeoutError ''waiting for devbox to be ready'' T)))"
| failed: "t \<le> dl \<Longrightarrow>
     wait_trace T dl step i [ClockRead t, ClientGet nm (Inl err)] (Returned (Some err))"
| ready: "t \<le> dl \<Longrightarrow> status_Phase (crd_Status c) = DevboxPhaseRunning \<Longrightarrow>
     wait_trace T dl step i [ClockRead t, ClientGet nm (Inr c)] (Returned None)"
| cancelled: "t \<le> dl \<Longrightarrow> status_Phase (crd_Status c) \<noteq> DevboxPhaseRunning \<Longrightarrow>
     wait_trace T dl step i [ClockRead t, ClientGet nm (Inr c), Select i (Some err)]
       (Returned (Some err))"
| slept: "t \<le> dl \<Longrightarrow> status_Phase (crd_Status c) \<noteq> DevboxPhaseRunning \<Longrightarrow>
     wait_trace T dl step (step i) evs out \<Longrightarrow>
     wait_trace T dl step i (ClockRead t # ClientGet nm (Inr c) # Select i None # evs) out"

section \<open>Example inputs\<close>

text \<open>
  A devbox that is still pending, behind a node port; a control plane that answers every
  request, one that refuses every request, and a context that is cancelled during the first
  sleep. The state of these collaborators counts their calls, and the clock shows one second
  for each call.
\<close>

definition example_crd :: DevboxCRD where
  "example_crd =
     \<lparr>crd_Name = ''abc'', crd_UID = ''uid-1'',
      crd_Spec = \<lparr>spec_State = ''Running'', spec_Image = ''ubuntu'',
                  spec_Config = \<lparr>config_WorkingDir = ''/home/devbox'', config_User = ''devbox''\<rparr>\<rparr>,
      crd_Status = \<lparr>status_Phase = ''Pending'',
                    status_Network = \<lparr>net_Type = ''NodePort'', net_NodePort = 30022,
                                      net_UniqueID = ''u1''\<rparr>,
                    status_Node = ''node-1''\<rparr>\<rparr>"

definition example_box :: Devbox where
  "example_box = \<lparr>crd = example_crd\<rparr>"

definition example_up :: "nat collab" where
  "example_up =
     \<lparr>client_Get = (\<lambda>name r. (Inr example_crd, Suc r)),
      client_UpdateState = (\<lambda>name st r. (None, Suc r)),
      client_Delete = (\<lambda>name r. (None, Suc r)),
      client_CreateRelease = (\<lambda>rel r. (Inr rel, Suc r)),
      time_Now = (\<lambda>r. (int r * Second, Suc r)),
      ctx_select = (\<lambda>interval r. (None, Suc r))\<rparr>"

definition example_down :: "nat collab" where
  "example_down =
     \<lparr>client_Get = (\<lambda>name r. (Inl (TransportError ''connection refused''), Suc r)),
      client_UpdateState = (\<lambda>name st r. (Some (TransportError ''connection refused''), Suc r)),
      client_Delete = (\<lambda>name r. (Some (TransportError ''connection refused''), Suc r)),
      client_CreateRelease = (\<lambda>rel r. (Inl (TransportError ''connection refused''), Suc r)),
      time_Now = (\<lambda>r. (int r * Second, Suc r)),
      ctx_select = (\<lambda>interval r. (None, Suc r))\<rparr>"

definition example_cancel :: "nat collab" where
  "example_cancel =
     \<lparr>client_Get = (\<lambda>name r. (Inr example_crd, Suc r)),
      client_UpdateState = (\<lambda>name st r. (None, Suc r)),
      client_Delete = (\<lambda>name r. (None, Suc r)),
      client_CreateRelease = (\<lambda>rel r. (Inr rel, Suc r)),
      time_Now = (\<lambda>r. (int r * Second, Suc r)),
      ctx_select = (\<lambda>interval r. (Some Canceled, r + 1000))\<rparr>"

definition empty_world :: "nat world" where
  "empty_world = \<lparr>remote = 0, cache = Map.empty, trace = []\<rparr>"

definition cached_world :: "nat world" where
  "cached_world = \<lparr>remote = 0, cache = [''abc'' \<mapsto> example_crd], trace = []\<rparr>"

definition default_options :: WaitForReadyOptions where
  "default_options =
     \<lparr>opt_Timeout = 0, opt_InitialCheckInterval = 0, opt_MaxCheckInterval = 0,
      opt_BackoffMultiplier = 0, opt_UseExponentialBackoff = None, opt_CheckInterval = 0\<rparr>"


definition short_options :: WaitForReadyOptions where
  "short_options = default_options\<lparr>opt_Timeout := 2 * Second\<rparr>"

definition fixed_options :: WaitForReadyOptions where
  "fixed_options = default_options\<lparr>opt_UseExponentialBackoff := Some True, opt_CheckInterval := Second\<rparr>"

definition example_release :: ReleaseConfig where
  "example_release = \<lparr>cfg_Version = ''1.0'', cfg_Notes = ''first'', cfg_StartDevboxAfterRelease = False\<rparr>"

section \<open>Steps of the model\<close>

lemma call_Now_eq:
  "call_Now env w =
     (fst (time_Now env (remote w)),
      w\<lparr>remote := snd (time_Now env (remote w)),
        trace := trace w @ [ClockRead (fst (time_Now env (remote w)))]\<rparr>)"
  by (simp add: call_Now_def split: prod.splits)

lemma call_Get_eq:
  "call_Get env name w =
     (fst (client_Get env name (remote w)),
      w\<lparr>remote := snd (client_Get env name (remote w)),
        trace := trace w @ [ClientGet name (fst (client_Get env name (remote w)))]\<rparr>)"
  by (simp add: call_Get_def split: prod.splits)

lemma call_select_eq:
  "call_select env i w =
     (fst (ctx_select env i (remote w)),
      w\<lparr>remote := snd (ctx_select env i (remote w)),
        trace := trace w @ [Select i (fst (ctx_select env i (remote w)))]\<rparr>)"
  by (simp add: call_select_def split: prod.splits)

lemma RefreshInfo_cases:
  assumes "RefreshInfo env d w = (res, d', w')"
  obtains (failed) err where
      "fst (client_Get env (crd_Name (crd d)) (remote w)) = Inl err"
      "res = Some err" "d' = d" "cache w' = cache w"
      "trace w' = trace w @ [ClientGet (crd_Name (crd d)) (Inl err)]"
      "remote w' = snd (client_Get env (crd_Name (crd d)) (remote w))"
  | (fetched) devbox where
      "fst (client_Get env (crd_Name (crd d)) (remote w)) = Inr devbox"
      "res = None" "d' = d\<lparr>crd := devbox\<rparr>"
      "cache w' = (cache w)(crd_Name devbox \<mapsto> devbox)"
      "trace w' = trace w @ [ClientGet (crd_Name (crd d)) (Inr devbox)]"
      "remote w' = snd (client_Get env (crd_Name (crd d)) (remote w))"
  using assms
  by (cases "fst (client_Get env (crd_Name (crd d)) (remote w))")
     (auto simp: RefreshInfo_def call_Get_eq cache_Set_def Let_def)

lemma loop_Suc_cases:
  assumes "WaitForReady_loop (Suc n) env T dl mx m ue i d w = (out, d', w')"
  obtains
    (expired) t where
      "trace w' = trace w @ [ClockRead t]" "dl < t" "t = fst (time_Now env (remote w))"
      "out = Returned (Some (TimeoutError ''waiting for devbox to be ready'' T))"
      "d' = d" "cache w' = cache w"
  | (failed) t err where
      "trace w' = trace w @ [ClockRead t, ClientGet (crd_Name (crd d)) (Inl err)]" "t \<le> dl"
      "out = Returned (Some err)" "d' = d" "cache w' = cache w"
  | (ready) t devbox where
      "trace w' = trace w @ [ClockRead t, ClientGet (crd_Name (crd d)) (Inr devbox)]" "t \<le> dl"
      "status_Phase (crd_Status devbox) = DevboxPhaseRunning"
      "out = Returned None" "d' = d\<lparr>crd := devbox\<rparr>"
  | (cancelled) t devbox err where
      "trace w' = trace w @ [ClockRead t, ClientGet (crd_Name (crd d)) (Inr devbox),
                             Select i (Some err)]" "t \<le> dl"
      "status_Phase (crd_Status devbox) \<noteq> DevboxPhaseRunning"
      "out = Returned (Some err)" "d' = d\<lparr>crd := devbox\<rparr>"
  | (slept) t devbox w3 where
      "trace w3 = trace w @ [ClockRead t, ClientGet (crd_Name (crd d)) (Inr devbox),
                             Select i None]" "t \<le> dl"
      "status_Phase (crd_Status devbox) \<noteq> DevboxPhaseRunning"
      "WaitForReady_loop n env T dl mx m ue (next_interval ue m mx i) (d\<lparr>crd := devbox\<rparr>) w3
         = (out, d', w')"
proof -
  obtain t w1 where now: "call_Now env w = (t, w1)" by (cases "call_Now env w")
  then have t: "t = fst (time_Now env (remote w))" and
    w1: "trace w1 = trace w @ [ClockRead t]" "cache w1 = cache w"
    by (auto simp: call_Now_eq)
  show thesis
  proof (cases "dl < t")
    case True
    with assms now t w1 show thesis by (intro expired[of t]) auto
  next
    case late: False
    obtain res d2 w2 where ref: "RefreshInfo env d w1 = (res, d2, w2)"
      by (cases "RefreshInfo env d w1")
    from ref show thesis
    proof (cases rule: RefreshInfo_cases)
      case (failed err)
      with assms now late ref w1 show thesis by (intro that(2)[of t err]) auto
    next
      case (fetched devbox)
      show thesis
      proof (cases "isReady d2")
        case True
        with assms now late ref w1 fetched show thesis
          by (intro that(3)[of t devbox]) (auto simp: isReady_def)
      next
        case nr: False
        obtain sres w3 where sel: "call_select env i w2 = (sres, w3)"
          by (cases "call_select env i w2")
        then have w3: "trace w3 = trace w2 @ [Select i sres]"
          by (auto simp: call_select_eq)
        show thesis
        proof (cases sres)
          case None
          with assms now late ref w1 fetched nr sel w3 show thesis
            by (intro that(5)[of w3 t devbox]) (auto simp: isReady_def)
        next
          case (Some err)
          with assms now late ref w1 fetched nr sel w3 show thesis
            by (intro that(4)[of t devbox err]) (auto simp: isReady_def)
        qed
      qed
    qed
  qed
qed

lemma loop_wait_trace:
  assumes "WaitForReady_loop n env T dl mx m ue i d w = (out, d', w')"
  shows "\<exists>evs. trace w' = trace w @ evs \<and> wait_trace T dl (next_interval ue m mx) i evs out"
  using assms
proof (induction n arbitrary: i d w)
  case 0
  then show ?case by (auto intro: wait_trace.running)
next
  case (Suc n)
  from Suc.prems show ?case
  proof (cases rule: loop_Suc_cases)
    case (expired t)
    then show ?thesis by (auto intro: wait_trace.expired)
  next
    case (failed t err)
    then show ?thesis by (auto intro: wait_trace.failed)
  next
    case (ready t devbox)
    then show ?thesis by (auto intro: wait_trace.ready)
  next
    case (cancelled t devbox err)
    then show ?thesis by (auto intro: wait_trace.cancelled)
  next
    case (slept t devbox w3)
    from Suc.IH[OF slept(4)] obtain evs where
      evs: "trace w' = trace w3 @ evs"
        "wait_trace T dl (next_interval ue m mx) (next_interval ue m mx i) evs out"
      by blast
    from wait_trace.slept[OF slept(2,3) evs(2)] evs(1) slept(1) show ?thesis by auto
  qed
qed

lemma WaitForReady_wait_trace:
  assumes "WaitForReady fuel env opts d w = (out, d', w')"
  shows "\<exists>evs. new_events w w' = ClockRead (fst (time_Now env (remote w))) # evs \<and>
           wait_trace (wfr_timeout opts) (wfr_deadline env opts w)
             (next_interval (wfr_useExponentialBackoff opts) (wfr_backoffMultiplier opts)
                (wfr_maxInterval opts))
             (wfr_interval opts) evs out"
proof -
  obtain t w0 where now: "call_Now env w = (t, w0)" by (cases "call_Now env w")
  then have t: "t = fst (time_Now env (remote w))" and w0: "trace w0 = trace w @ [ClockRead t]"
    by (auto simp: call_Now_eq)
  from assms now have "WaitForReady_loop fuel env (wfr_timeout opts) (t + wfr_timeout opts)
            (wfr_maxInterval opts) (wfr_backoffMultiplier opts)
            (wfr_useExponentialBackoff opts) (wfr_interval opts) d w0 = (out, d', w')"
    by (simp add: WaitForReady_def)
  from loop_wait_trace[OF this] w0 t show ?thesis
    by (auto simp: new_events_def wfr_deadline_def)
qed

lemma nth_Cons3:
  "(a # b # c # xs) ! k =
     (if k = 0 then a else if k = 1 then b else if k = 2 then c else xs ! (k - 3))"
  by (auto simp: nth_Cons numeral_3_eq_3 numeral_2_eq_2 split: nat.splits)

lemma wait_trace_expired:
  assumes "wait_trace T dl step i evs out" "k < length evs" "evs ! k = ClockRead t" "dl < t"
  shows "out = Returned (Some (TimeoutError ''waiting for devbox to be ready'' T)) \<and>
         Suc k = length evs"
  using assms
proof (induction arbitrary: k rule: wait_trace.induct)
  case (slept t' c i evs out nm)
  from slept.prems slept.hyps(1) have k: "3 \<le> k" "k - 3 < length evs" "evs ! (k - 3) = ClockRead t"
    by (auto simp: nth_Cons3 split: if_splits)
  from slept.IH[OF k(2,3) slept.prems(3)] k(1) show ?case by auto
qed (auto simp: nth_Cons split: nat.splits)

lemma wait_trace_guard:
  assumes "wait_trace T dl step i evs out" "k < length evs" "evs ! k = ClientGet nm r"
  shows "0 < k \<and> (\<exists>t. evs ! (k - 1) = ClockRead t \<and> t \<le> dl)"
  using assms
proof (induction arbitrary: k rule: wait_trace.induct)
  case (slept t' c i evs out nm')
  show ?case
  proof (cases "k < 3")
    case True
    with slept.prems slept.hyps(1) show ?thesis
      by (auto simp: nth_Cons3 split: if_splits)
  next
    case False
    with slept.prems have k: "k - 3 < length evs" "evs ! (k - 3) = ClientGet nm r"
      by (auto simp: nth_Cons3 split: if_splits)
    from slept.IH[OF k] obtain t where "0 < k - 3" "evs ! (k - 3 - 1) = ClockRead t" "t \<le> dl"
      by blast
    moreover have "k - 1 - 3 = k - 3 - 1" by simp
    ultimately show ?thesis using False by (auto simp: nth_Cons3)
  qed
qed (auto simp: nth_Cons split: nat.splits)

lemma wait_trace_error_origin:
  assumes "wait_trace T dl step i evs out" "out = Returned (Some e)"
  shows "evs \<noteq> [] \<and>
         ((\<exists>t. last evs = ClockRead t \<and> dl < t \<and>
               e = TimeoutError ''waiting for devbox to be ready'' T) \<or>
          (\<exists>nm. last evs = ClientGet nm (Inl e)) \<or>
          (\<exists>j. last evs = Select j (Some e)))"
  using assms by (induction rule: wait_trace.induct) auto

lemma wait_trace_ready:
  assumes "wait_trace T dl step i evs out" "k < length evs" "evs ! k = ClientGet nm (Inr c)"
    "status_Phase (crd_Status c) = DevboxPhaseRunning"
  shows "out = Returned None \<and> Suc k = length evs"
  using assms
proof (induction arbitrary: k rule: wait_trace.induct)
  case (slept t' c' i evs out nm')
  from slept.prems slept.hyps(2) have k: "3 \<le> k" "k - 3 < length evs"
    "evs ! (k - 3) = ClientGet nm (Inr c)"
    by (auto simp: nth_Cons3 split: if_splits)
  from slept.IH[OF k(2,3) slept.prems(3)] k(1) show ?case by auto
qed (auto simp: nth_Cons split: nat.splits)

lemma wait_trace_cancelled:
  assumes "wait_trace T dl step i evs out" "k < length evs" "evs ! k = Select j (Some e)"
  shows "out = Returned (Some e) \<and> Suc k = length evs"
  using assms
proof (induction arbitrary: k rule: wait_trace.induct)
  case (slept t' c' i evs out nm')
  from slept.prems have k: "3 \<le> k" "k - 3 < length evs" "evs ! (k - 3) = Select j (Some e)"
    by (auto simp: nth_Cons3 split: if_splits)
  from slept.IH[OF k(2,3)] k(1) show ?case by auto
qed (auto simp: nth_Cons split: nat.splits)

lemma wait_trace_failed:
  assumes "wait_trace T dl step i evs out" "k < length evs" "evs ! k = ClientGet nm (Inl e)"
  shows "out = Returned (Some e) \<and> Suc k = length evs"
  using assms
proof (induction arbitrary: k rule: wait_trace.induct)
  case (slept t' c' i evs out nm')
  from slept.prems have k: "3 \<le> k" "k - 3 < length evs" "evs ! (k - 3) = ClientGet nm (Inl e)"
    by (auto simp: nth_Cons3 split: if_splits)
  from slept.IH[OF k(2,3)] k(1) show ?case by auto
qed (auto simp: nth_Cons split: nat.splits)

lemma wait_trace_intervals:
  assumes "wait_trace T dl step i evs out"
  shows "sleep_intervals evs = map (\<lambda>k. (step ^^ k) i) [0..<length (sleep_intervals evs)]"
  using assms
proof (induction rule: wait_trace.induct)
  case (slept t c i evs out nm)
  have "map (\<lambda>k. (step ^^ k) i) [0..<Suc (length (sleep_intervals evs))] =
        i # map (\<lambda>k. (step ^^ k) (step i)) [0..<length (sleep_intervals evs)]"
    by (simp add: upt_conv_Cons map_Suc_upt[symmetric] funpow_swap1 del: upt_Suc)
  with slept.IH show ?case by simp
qed auto

section \<open>Steps of the mutations\<close>

lemma call_UpdateState_eq:
  "call_UpdateState env name st w =
     (fst (client_UpdateState env name st (remote w)),
      w\<lparr>remote := snd (client_UpdateState env name st (remote w)),
        trace := trace w @
          [ClientUpdateState name st (fst (client_UpdateState env name st (remote w)))]\<rparr>)"
  by (simp add: call_UpdateState_def split: prod.splits)

lemma call_Delete_eq:
  "call_Delete env name w =
     (fst (client_Delete env name (remote w)),
      w\<lparr>remote := snd (client_Delete env name (remote w)),
        trace := trace w @ [ClientDelete name (fst (client_Delete env name (remote w)))]\<rparr>)"
  by (simp add: call_Delete_def split: prod.splits)

lemma call_CreateRelease_eq:
  "call_CreateRelease env rel w =
     (fst (client_CreateRelease env rel (remote w)),
      w\<lparr>remote := snd (client_CreateRelease env rel (remote w)),
        trace := trace w @
          [ClientCreateRelease rel (fst (client_CreateRelease env rel (remote w)))]\<rparr>)"
  by (simp add: call_CreateRelease_def split: prod.splits)

lemma Delete_cases:
  assumes "Delete env d w = (res, d', w')"
  obtains (failed) err where
      "fst (client_Delete env (crd_Name (crd d)) (remote w)) = Some err"
      "res = Some err" "d' = d" "cache w' = cache w"
  | (deleted)
      "fst (client_Delete env (crd_Name (crd d)) (remote w)) = None"
      "res = None" "d' = d" "cache w' = (cache w)(crd_Name (crd d) := None)"
  using assms
  by (cases "fst (client_Delete env (crd_Name (crd d)) (remote w))")
     (auto simp: Delete_def call_Delete_eq cache_Delete_def)

section \<open>Fuel and intervals\<close>

text \<open>Fuel is a bound only: a call that has returned returns the same with more fuel.\<close>

lemma WaitForReady_loop_more_fuel:
  assumes "WaitForReady_loop n env T dl mx m ue i d w = (Returned r, d', w')"
  shows "WaitForReady_loop (n + k) env T dl mx m ue i d w = (Returned r, d', w')"
  using assms
proof (induction n arbitrary: i d w)
  case 0
  then show ?case by simp
next
  case (Suc n)
  from Suc.prems show ?case
    by (auto simp: Suc.IH split: prod.splits if_splits option.splits)
qed

lemma sleep_intervals_WaitForReady:
  assumes "WaitForReady fuel env opts d w = (out, d', w')"
  shows "sleep_intervals (new_events w w') =
     map (\<lambda>k. (next_interval (wfr_useExponentialBackoff opts) (wfr_backoffMultiplier opts)
                (wfr_maxInterval opts) ^^ k) (wfr_interval opts))
       [0..<length (sleep_intervals (new_events w w'))]"
proof -
  from WaitForReady_wait_trace[OF assms] obtain evs where
    E: "new_events w w' = ClockRead (fst (time_Now env (remote w))) # evs" and
    wt: "wait_trace (wfr_timeout opts) (wfr_deadline env opts w)
             (next_interval (wfr_useExponentialBackoff opts) (wfr_backoffMultiplier opts)
                (wfr_maxInterval opts))
             (wfr_interval opts) evs out"
    by blast
  from wait_trace_intervals[OF wt] show ?thesis by (simp add: E)
qed

lemma duration_of_float_three_halves:
  assumes "0 \<le> x"
  shows "duration_of_float (of_int x * (3 / 2)) = x * 3 div 2"
proof -
  have "(of_int x * (3 / 2) :: rat) = of_int (x * 3) / of_int 2"
    by simp
  then have "\<lfloor>of_int x * (3 / 2) :: rat\<rfloor> = x * 3 div 2"
    by (simp only: floor_divide_of_int_eq)
  moreover from assms have "\<not> (of_int x * (3 / 2) :: rat) < 0"
    by (simp add: not_less)
  ultimately show ?thesis by (simp add: duration_of_float_def)
qed

lemma next_interval_default:
  assumes "0 \<le> x"
  shows "next_interval True (3 / 2) (5 * Second) x = min (x * 3 div 2) (5 * Second)"
  unfolding next_interval_def Let_def duration_of_float_three_halves[OF assms]
  by (simp add: min_def)

lemma default_backoff_range:
  "0 < (next_interval True (3 / 2) (5 * Second) ^^ k) (200 * Millisecond) \<and>
   (next_interval True (3 / 2) (5 * Second) ^^ k) (200 * Millisecond) \<le> 5 * Second"
proof (induction k)
  case 0
  show ?case by (simp add: Millisecond_def Second_def)
next
  case (Suc k)
  define x where "x = (next_interval True (3 / 2) (5 * Second) ^^ k) (200 * Millisecond)"
  from Suc have x: "0 < x" "x \<le> 5 * Second" by (simp_all add: x_def)
  then have "next_interval True (3 / 2) (5 * Second) x = min (x * 3 div 2) (5 * Second)"
    by (intro next_interval_default) simp
  moreover from x have "0 < x * 3 div 2" by arith
  moreover have "0 < 5 * Second" by (simp add: Second_def)
  ultimately have "0 < next_interval True (3 / 2) (5 * Second) x \<and>
      next_interval True (3 / 2) (5 * Second) x \<le> 5 * Second"
    by simp
  then show ?case by (simp add: x_def)
qed

section \<open>Properties\<close>

text \<open>
  Claim C1 says that a successful \<^verbatim>\<open>Start\<close>, \<^verbatim>\<open>Pause\<close>, \<^verbatim>\<open>Stop\<close> or \<^verbatim>\<open>Shutdown\<close> populates the
  cache. It does not: against a control plane that accepts the request, \<^verbatim>\<open>Start\<close> on a handle
  named \<^verbatim>\<open>abc\<close> returns \<^verbatim>\<open>nil\<close> and the cache, empty before the call, is still empty for
  \<^verbatim>\<open>abc\<close> after it.
\<close>

theorem Start_cache_counterexample:
  "fst (Start example_up example_box empty_world) = None \<and>
   cache (snd (snd (Start example_up example_box empty_world))) = cache empty_world \<and>
   cache (snd (snd (Start example_up example_box empty_world))) (Name example_box) = None"
  by (simp add: Start_def call_UpdateState_eq example_up_def empty_world_def)

text \<open>
  Claim C1, amended: \<^verbatim>\<open>Start\<close>, \<^verbatim>\<open>Pause\<close>, \<^verbatim>\<open>Stop\<close> and \<^verbatim>\<open>Shutdown\<close> send one desired-state
  update for the handle's name, with the state that belongs to the operation, and return the
  client's answer; they leave the cache as it was, whatever the answer. A successful
  \<^verbatim>\<open>Delete\<close> removes the cache entry of the handle's name.
\<close>

theorem mutations_cache_effect:
  "cache (snd (snd (Start env d w))) = cache w \<and>
   new_events w (snd (snd (Start env d w))) =
     [ClientUpdateState (Name d) DevboxStateRunning (fst (Start env d w))] \<and>
   cache (snd (snd (Pause env d w))) = cache w \<and>
   new_events w (snd (snd (Pause env d w))) =
     [ClientUpdateState (Name d) DevboxStatePaused (fst (Pause env d w))] \<and>
   cache (snd (snd (Stop env d w))) = cache w \<and>
   new_events w (snd (snd (Stop env d w))) =
     [ClientUpdateState (Name d) DevboxStateStopped (fst (Stop env d w))] \<and>
   cache (snd (snd (Shutdown env d w))) = cache w \<and>
   new_events w (snd (snd (Shutdown env d w))) =
     [ClientUpdateState (Name d) DevboxStateShutdown (fst (Shutdown env d w))] \<and>
   (fst (Delete env d w) = None \<longrightarrow>
      cache (snd (snd (Delete env d w))) = (cache w)(Name d := None))"
proof -
  have "fst (Delete env d w) = None \<longrightarrow>
      cache (snd (snd (Delete env d w))) = (cache w)(Name d := None)"
  proof (cases "Delete env d w" rule: prod_cases3)
    case (fields res d' w')
    then show ?thesis by (cases rule: Delete_cases) (auto simp: Name_def fields)
  qed
  then show ?thesis
    by (simp add: Start_def Pause_def Stop_def Shutdown_def call_UpdateState_eq new_events_def
        Name_def)
qed

text \<open>Claim C1 at a concrete input: a successful delete empties the entry of \<^verbatim>\<open>abc\<close>, a successful start keeps it.\<close>

theorem mutations_cache_effect_witness:
  "fst (Delete example_up example_box cached_world) = None \<and>
   cache (snd (snd (Delete example_up example_box cached_world))) ''abc'' = None \<and>
   cache (snd (snd (Start example_up example_box cached_world))) ''abc'' = Some example_crd"
proof -
  have ok: "fst (Delete example_up example_box cached_world) = None"
    by (simp add: Delete_def call_Delete_eq example_up_def)
  have nm: "Name example_box = ''abc''"
    by (simp add: Name_def example_box_def example_crd_def)
  from mutations_cache_effect [of example_up example_box cached_world] ok nm show ?thesis
    by (simp add: cached_world_def)
qed

text \<open>
  Claim C2 asks for the bound port in decimal. For a devbox behind a node port, with user
  \<^verbatim>\<open>devbox\<close> and port 30022, the code appends \<^verbatim>\<open>string(rune(30022))\<close>, the three bytes of the
  UTF-8 encoding of U+7546, and so does not return \<^verbatim>\<open>devbox@<node-ip>:30022\<close>.
\<close>

theorem SSHConnectionString_NodePort_rune:
  "NetworkType example_box = NetworkTypeNodePort \<and> User example_box = ''devbox'' \<and>
   sint (NodePort example_box) = 30022 \<and>
   SSHConnectionString example_box = ''devbox@<node-ip>:'' @ [CHR 0xE7, CHR 0x95, CHR 0x86] \<and>
   SSHConnectionString example_box \<noteq> ''devbox@<node-ip>:30022''"
  by code_simp

text \<open>
  The rest of the dispatch is as the claim has it: the unique identifier and the gateway
  suffix for a gateway network, the empty string for every kind other than the two. What
  follows the colon for a node port is one code point, of one to four bytes.
\<close>

lemma SSHConnectionString_dispatch:
  "SSHConnectionString d =
     (if NetworkType d = NetworkTypeSSHGate then NetworkUniqueID d @ ''@bja.sealos.run''
      else if NetworkType d = NetworkTypeNodePort
        then User d @ ''@<node-ip>:'' @ string_of_rune (sint (NodePort d))
      else [])"
  by (simp add: SSHConnectionString_def NetworkType_def NetworkUniqueID_def User_def NodePort_def)

lemma string_of_rune_length: "length (string_of_rune r) \<le> 4 \<and> 0 < length (string_of_rune r)"
  by (simp add: string_of_rune_def)

text \<open>
  Claim C3: in a call of \<^verbatim>\<open>WaitForReady\<close> the first event is the reading of the start time,
  and the deadline is that time plus the timeout (300 seconds when the option is zero).
  Every fetch comes directly after a reading of the clock that is not past the deadline, so
  no fetch is attempted after a reading past the deadline. A reading past the deadline at
  the head of an iteration is the last event, and the call returns the timeout error with
  the timeout. An error that the call returns is either that timeout error, after a last
  reading past the deadline, or the error of a failed fetch or of a cancelled sleep, passed
  on. A fetch that shows the ready phase is the last event and the call returns \<^verbatim>\<open>nil\<close>, so
  a timeout is raised only while no fetch has shown the devbox ready.
\<close>

theorem WaitForReady_deadline_before_poll:
  fixes w w' :: "'r world"
  assumes "WaitForReady fuel env opts d w = (out, d', w')"
  defines "E \<equiv> new_events w w'"
    and "deadline \<equiv> wfr_deadline env opts w"
    and "expired \<equiv> Returned (Some (TimeoutError ''waiting for devbox to be ready'' (wfr_timeout opts)))"
  shows "E ! 0 = ClockRead (fst (time_Now env (remote w))) \<and>
    (\<forall>k nm r. k < length E \<and> E ! k = ClientGet nm r \<longrightarrow>
       1 < k \<and> (\<exists>t. E ! (k - 1) = ClockRead t \<and> t \<le> deadline)) \<and>
    (\<forall>k t. 0 < k \<and> k < length E \<and> E ! k = ClockRead t \<and> deadline < t \<longrightarrow>
       out = expired \<and> Suc k = length E) \<and>
    (\<forall>e. out = Returned (Some e) \<longrightarrow>
       (\<exists>t. 1 < length E \<and> last E = ClockRead t \<and> deadline < t \<and> out = expired) \<or>
       (\<exists>nm. last E = ClientGet nm (Inl e)) \<or>
       (\<exists>j. last E = Select j (Some e))) \<and>
    (\<forall>k nm c. k < length E \<and> E ! k = ClientGet nm (Inr c) \<and>
         status_Phase (crd_Status c) = DevboxPhaseRunning \<longrightarrow>
       out = Returned None \<and> Suc k = length E)"
proof -
  from WaitForReady_wait_trace[OF assms(1)] obtain evs where
    E: "E = ClockRead (fst (time_Now env (remote w))) # evs" and
    wt: "wait_trace (wfr_timeout opts) deadline
             (next_interval (wfr_useExponentialBackoff opts) (wfr_backoffMultiplier opts)
                (wfr_maxInterval opts))
             (wfr_interval opts) evs out"
    unfolding E_def deadline_def by blast
  have c1: "E ! 0 = ClockRead (fst (time_Now env (remote w)))"
    by (simp add: E)
  have c2: "1 < k \<and> (\<exists>t. E ! (k - 1) = ClockRead t \<and> t \<le> deadline)"
    if "k < length E" "E ! k = ClientGet nm r" for k nm r
  proof -
    from that have k: "0 < k" "k - 1 < length evs" "evs ! (k - 1) = ClientGet nm r"
      by (auto simp: E nth_Cons split: nat.splits)
    from wait_trace_guard[OF wt k(2,3)] obtain t where
      t: "0 < k - 1" "evs ! (k - 1 - 1) = ClockRead t" "t \<le> deadline"
      by blast
    from t(1) have "E ! (k - 1) = evs ! (k - 1 - 1)"
      by (simp add: E nth_Cons')
    with t show ?thesis by auto
  qed
  have c3: "out = expired \<and> Suc k = length E"
    if "0 < k" "k < length E" "E ! k = ClockRead t" "deadline < t" for k t
  proof -
    from that have k: "k - 1 < length evs" "evs ! (k - 1) = ClockRead t"
      by (auto simp: E nth_Cons split: nat.splits)
    from wait_trace_expired[OF wt k that(4)] that(1) show ?thesis
      by (auto simp: E expired_def)
  qed
  have c4: "(\<exists>t. 1 < length E \<and> last E = ClockRead t \<and> deadline < t \<and> out = expired) \<or>
       (\<exists>nm. last E = ClientGet nm (Inl e)) \<or> (\<exists>j. last E = Select j (Some e))"
    if "out = Returned (Some e)" for e
    using wait_trace_error_origin[OF wt that] that by (auto simp: E expired_def)
  have c5: "out = Returned None \<and> Suc k = length E"
    if "k < length E" "E ! k = ClientGet nm (Inr c)"
      "status_Phase (crd_Status c) = DevboxPhaseRunning" for k nm c
  proof -
    from that have k: "0 < k" "k - 1 < length evs" "evs ! (k - 1) = ClientGet nm (Inr c)"
      by (auto simp: E nth_Cons split: nat.splits)
    from wait_trace_ready[OF wt k(2,3) that(3)] k(1) show ?thesis
      by (auto simp: E)
  qed
  from c1 c2 c3 c4 c5 show ?thesis by blast
qed

text \<open>Claim C3 at a concrete input: with a timeout of two seconds the reading of the second iteration, four seconds, is past the deadline.\<close>

theorem WaitForReady_deadline_before_poll_witness:
  "new_events empty_world
     (snd (snd (WaitForReady 4 example_up short_options example_box empty_world))) ! 4 =
     ClockRead 4000000000 \<and>
   wfr_deadline example_up short_options empty_world = 2000000000 \<and>
   wfr_timeout default_options = 300000000000 \<and>
   fst (WaitForReady 4 example_up short_options example_box empty_world) =
     Returned (Some (TimeoutError ''waiting for devbox to be ready'' 2000000000))"
proof -
  define R where "R = WaitForReady 4 example_up short_options example_box empty_world"
  have run: "WaitForReady 4 example_up short_options example_box empty_world =
      (fst R, fst (snd R), snd (snd R))"
    by (simp add: R_def)
  have len: "length (new_events empty_world (snd (snd R))) = 5"
    unfolding R_def by code_simp
  have ev: "new_events empty_world (snd (snd R)) ! 4 = ClockRead 4000000000"
    unfolding R_def by code_simp
  have dl: "wfr_deadline example_up short_options empty_world = 2000000000"
    by code_simp
  have T: "wfr_timeout short_options = 2000000000" "wfr_timeout default_options = 300000000000"
    by code_simp+
  from WaitForReady_deadline_before_poll [OF run]
  have "\<forall>k t. 0 < k \<and> k < length (new_events empty_world (snd (snd R))) \<and>
          new_events empty_world (snd (snd R)) ! k = ClockRead t \<and>
          wfr_deadline example_up short_options empty_world < t \<longrightarrow>
          fst R = Returned (Some (TimeoutError ''waiting for devbox to be ready''
                                    (wfr_timeout short_options)))"
    by blast
  from this [rule_format, of 4 4000000000] len ev dl T
  have "fst R = Returned (Some (TimeoutError ''waiting for devbox to be ready'' 2000000000))"
    by simp
  with ev dl T show ?thesis by (simp add: R_def)
qed

text \<open>
  Claim C4: with backoff enabled, a first interval of 200 ms, a ceiling of 5 s and a
  multiplier of 1.5, the intervals that a call of \<^verbatim>\<open>WaitForReady\<close> sleeps are: first 200 ms;
  then each one the previous one times 1.5, rounded down to a nanosecond and cut at 5 s;
  never decreasing; never above 5 s.
\<close>

theorem WaitForReady_default_backoff:
  fixes w w' :: "'r world"
  assumes "WaitForReady fuel env opts d w = (out, d', w')"
    and "wfr_useExponentialBackoff opts"
    and "wfr_initialInterval opts = 200 * Millisecond"
    and "wfr_maxInterval opts = 5 * Second"
    and "wfr_backoffMultiplier opts = 3 / 2"
  defines "ivs \<equiv> sleep_intervals (new_events w w')"
  shows "(ivs \<noteq> [] \<longrightarrow> ivs ! 0 = 200 * Millisecond) \<and>
    (\<forall>k. Suc k < length ivs \<longrightarrow> ivs ! Suc k = min (ivs ! k * 3 div 2) (5 * Second)) \<and>
    (\<forall>k. Suc k < length ivs \<longrightarrow> ivs ! k \<le> ivs ! Suc k) \<and>
    (\<forall>k. k < length ivs \<longrightarrow> 0 < ivs ! k \<and> ivs ! k \<le> 5 * Second)"
proof -
  let ?step = "next_interval True (3 / 2) (5 * Second)"
  have i0: "wfr_interval opts = 200 * Millisecond"
    using assms(2,3) by (simp add: wfr_interval_def)
  have ivs: "ivs = map (\<lambda>k. (?step ^^ k) (200 * Millisecond)) [0..<length ivs]"
    using sleep_intervals_WaitForReady[OF assms(1)] assms(2,4,5) i0
    unfolding ivs_def by simp
  have nth: "ivs ! k = (?step ^^ k) (200 * Millisecond)" if "k < length ivs" for k
  proof -
    from that have "map (\<lambda>k. (?step ^^ k) (200 * Millisecond)) [0..<length ivs] ! k =
        (?step ^^ k) (200 * Millisecond)"
      by simp
    with ivs show ?thesis by simp
  qed
  have range: "0 < ivs ! k \<and> ivs ! k \<le> 5 * Second" if "k < length ivs" for k
    using nth[OF that] default_backoff_range[of k] by simp
  have step: "ivs ! Suc k = min (ivs ! k * 3 div 2) (5 * Second)" if "Suc k < length ivs" for k
  proof -
    from that have k: "k < length ivs" by simp
    have "ivs ! Suc k = ?step (ivs ! k)"
      using nth[OF that] nth[OF k] by simp
    with range[OF k] show ?thesis by (simp add: next_interval_default)
  qed
  have mono: "ivs ! k \<le> ivs ! Suc k" if "Suc k < length ivs" for k
  proof -
    from that have k: "k < length ivs" by simp
    from range[OF k] have "ivs ! k \<le> ivs ! k * 3 div 2" by linarith
    with step[OF that] range[OF k] show ?thesis by simp
  qed
  have first: "ivs ! 0 = 200 * Millisecond" if "ivs \<noteq> []"
    using nth[of 0] that by simp
  from first step mono range show ?thesis by blast
qed

text \<open>Claim C4 at a concrete input: ten sleeps with the default options start with 200 ms, 300 ms and 450 ms.\<close>

theorem WaitForReady_default_backoff_witness:
  "length (sleep_intervals (new_events empty_world
      (snd (snd (WaitForReady 10 example_up default_options example_box empty_world))))) = 10 \<and>
   sleep_intervals (new_events empty_world
      (snd (snd (WaitForReady 10 example_up default_options example_box empty_world)))) ! 0
     = 200000000 \<and>
   sleep_intervals (new_events empty_world
      (snd (snd (WaitForReady 10 example_up default_options example_box empty_world)))) ! 1
     = 300000000 \<and>
   sleep_intervals (new_events empty_world
      (snd (snd (WaitForReady 10 example_up default_options example_box empty_world)))) ! 2
     = 450000000 \<and>
   sleep_intervals (new_events empty_world
      (snd (snd (WaitForReady 10 example_up default_options example_box empty_world)))) ! 9
     \<le> 5000000000"
proof -
  define R where "R = WaitForReady 10 example_up default_options example_box empty_world"
  define ivs where "ivs = sleep_intervals (new_events empty_world (snd (snd R)))"
  have run: "WaitForReady 10 example_up default_options example_box empty_world =
      (fst R, fst (snd R), snd (snd R))"
    by (simp add: R_def)
  have len: "length ivs = 10"
    unfolding ivs_def R_def by code_simp
  have opts: "wfr_useExponentialBackoff default_options"
    "wfr_initialInterval default_options = 200 * Millisecond"
    "wfr_maxInterval default_options = 5 * Second"
    "wfr_backoffMultiplier default_options = 3 / 2"
    by (simp_all add: default_options_def wfr_useExponentialBackoff_def
        wfr_initialInterval_def wfr_maxInterval_def wfr_backoffMultiplier_def)
  note bk = WaitForReady_default_backoff [OF run opts, folded ivs_def]
  from bk len have a0: "ivs ! 0 = 200000000"
    by (auto simp: Millisecond_def)
  from bk len have "ivs ! Suc 0 = min (ivs ! 0 * 3 div 2) (5 * Second)"
    by simp
  with a0 have a1: "ivs ! 1 = 300000000"
    by (simp add: Second_def)
  from bk len have "ivs ! Suc 1 = min (ivs ! 1 * 3 div 2) (5 * Second)"
    by simp
  with a1 have a2: "ivs ! 2 = 450000000"
    by (simp add: Second_def numeral_2_eq_2)
  from bk len have a9: "ivs ! 9 \<le> 5000000000"
    by (simp add: Second_def)
  from len a0 a1 a2 a9 show ?thesis
    by (simp add: ivs_def R_def)
qed

text \<open>
  Claim C5: with a positive \<^verbatim>\<open>CheckInterval\<close>, backoff is off whatever the flag says, and every
  interval that the call sleeps is \<^verbatim>\<open>CheckInterval\<close>.
\<close>

theorem WaitForReady_fixed_interval:
  fixes w w' :: "'r world"
  assumes "WaitForReady fuel env opts d w = (out, d', w')"
    and "0 < opt_CheckInterval opts"
  defines "ivs \<equiv> sleep_intervals (new_events w w')"
  shows "\<not> wfr_useExponentialBackoff opts \<and>
    (\<forall>k. k < length ivs \<longrightarrow> ivs ! k = opt_CheckInterval opts)"
proof -
  from assms(2) have off: "\<not> wfr_useExponentialBackoff opts"
    by (simp add: wfr_useExponentialBackoff_def)
  with assms(2) have i0: "wfr_interval opts = opt_CheckInterval opts"
    by (simp add: wfr_interval_def)
  have fixed: "(next_interval False m mx ^^ k) i = i" for m mx k i
    by (induction k) (simp_all add: next_interval_def)
  have ivs: "ivs = map (\<lambda>k. opt_CheckInterval opts) [0..<length ivs]"
    using sleep_intervals_WaitForReady[OF assms(1)] off i0
    unfolding ivs_def by (simp add: fixed)
  have "ivs ! k = opt_CheckInterval opts" if "k < length ivs" for k
  proof -
    from that have "map (\<lambda>k. opt_CheckInterval opts) [0..<length ivs] ! k =
        opt_CheckInterval opts"
      by simp
    with ivs show ?thesis by simp
  qed
  with off show ?thesis by blast
qed

text \<open>Claim C5 at a concrete input: a fixed interval of one second with the backoff flag set.\<close>

theorem WaitForReady_fixed_interval_witness:
  "opt_UseExponentialBackoff fixed_options = Some True \<and>
   opt_CheckInterval fixed_options = 1000000000 \<and>
   \<not> wfr_useExponentialBackoff fixed_options \<and>
   length (sleep_intervals (new_events empty_world
      (snd (snd (WaitForReady 3 example_up fixed_options example_box empty_world))))) = 3 \<and>
   sleep_intervals (new_events empty_world
      (snd (snd (WaitForReady 3 example_up fixed_options example_box empty_world)))) ! 0
     = 1000000000 \<and>
   sleep_intervals (new_events empty_world
      (snd (snd (WaitForReady 3 example_up fixed_options example_box empty_world)))) ! 2
     = 1000000000"
proof -
  define R where "R = WaitForReady 3 example_up fixed_options example_box empty_world"
  define ivs where "ivs = sleep_intervals (new_events empty_world (snd (snd R)))"
  have run: "WaitForReady 3 example_up fixed_options example_box empty_world =
      (fst R, fst (snd R), snd (snd R))"
    by (simp add: R_def)
  have len: "length ivs = 3"
    unfolding ivs_def R_def by code_simp
  have opts: "opt_UseExponentialBackoff fixed_options = Some True"
    "opt_CheckInterval fixed_options = 1000000000"
    by (simp_all add: fixed_options_def default_options_def Second_def)
  then have pos: "0 < opt_CheckInterval fixed_options" by simp
  from WaitForReady_fixed_interval [OF run pos, folded ivs_def] len opts
  show ?thesis by (simp add: ivs_def R_def)
qed

text \<open>
  Claim C6: when the \<^verbatim>\<open>select\<close> of a sleep ends because the context is done, with
  \<^verbatim>\<open>ctx.Err()\<close> being \<open>err\<close>, the call returns \<open>err\<close>, and that \<^verbatim>\<open>select\<close> is its last event:
  the clock is not read again, so the deadline plays no part, whether it has passed or not.
\<close>

theorem WaitForReady_cancelled_while_sleeping:
  fixes w w' :: "'r world"
  assumes "WaitForReady fuel env opts d w = (out, d', w')"
    and "k < length (new_events w w')"
    and "new_events w w' ! k = Select interval (Some err)"
  shows "out = Returned (Some err) \<and> Suc k = length (new_events w w')"
proof -
  from WaitForReady_wait_trace[OF assms(1)] obtain evs where
    E: "new_events w w' = ClockRead (fst (time_Now env (remote w))) # evs" and
    wt: "wait_trace (wfr_timeout opts) (wfr_deadline env opts w)
             (next_interval (wfr_useExponentialBackoff opts) (wfr_backoffMultiplier opts)
                (wfr_maxInterval opts))
             (wfr_interval opts) evs out"
    by blast
  from assms(2,3) have k: "0 < k" "k - 1 < length evs" "evs ! (k - 1) = Select interval (Some err)"
    by (auto simp: E nth_Cons split: nat.splits)
  from wait_trace_cancelled[OF wt k(2,3)] k(1) show ?thesis
    by (auto simp: E)
qed

text \<open>Claim C6 at a concrete input: the context is cancelled in the first sleep, and the clock is past the deadline when the call returns.\<close>

theorem WaitForReady_cancelled_while_sleeping_witness:
  "new_events empty_world
     (snd (snd (WaitForReady 3 example_cancel short_options example_box empty_world))) ! 3 =
     Select 200000000 (Some Canceled) \<and>
   fst (WaitForReady 3 example_cancel short_options example_box empty_world) =
     Returned (Some Canceled) \<and>
   wfr_deadline example_cancel short_options empty_world <
     fst (time_Now example_cancel
       (remote (snd (snd (WaitForReady 3 example_cancel short_options example_box
          empty_world)))))"
proof -
  define R where "R = WaitForReady 3 example_cancel short_options example_box empty_world"
  have run: "WaitForReady 3 example_cancel short_options example_box empty_world =
      (fst R, fst (snd R), snd (snd R))"
    by (simp add: R_def)
  have len: "3 < length (new_events empty_world (snd (snd R)))"
    unfolding R_def by code_simp
  have ev: "new_events empty_world (snd (snd R)) ! 3 = Select 200000000 (Some Canceled)"
    unfolding R_def by code_simp
  have late: "wfr_deadline example_cancel short_options empty_world <
     fst (time_Now example_cancel (remote (snd (snd R))))"
    unfolding R_def by code_simp
  from WaitForReady_cancelled_while_sleeping [OF run len ev] ev late
  show ?thesis by (simp add: R_def)
qed

text \<open>
  Claim C7: when a fetch of the loop fails with \<open>err\<close>, the call returns \<open>err\<close>, and the failed
  fetch is its last event, so there is no second attempt. \<^verbatim>\<open>RefreshInfo\<close> itself returns the
  error of the client as it is and leaves the handle and the cache alone.
\<close>

theorem WaitForReady_refresh_error:
  fixes w w' :: "'r world"
  assumes "WaitForReady fuel env opts d w = (out, d', w')"
    and "k < length (new_events w w')"
    and "new_events w w' ! k = ClientGet nm (Inl err)"
  shows "out = Returned (Some err) \<and> Suc k = length (new_events w w') \<and>
    (\<forall>d0 w0 e. fst (client_Get env (Name d0) (remote (w0 :: 'r world))) = Inl e \<longrightarrow>
       fst (RefreshInfo env d0 w0) = Some e \<and> fst (snd (RefreshInfo env d0 w0)) = d0 \<and>
       cache (snd (snd (RefreshInfo env d0 w0))) = cache w0)"
proof -
  from WaitForReady_wait_trace[OF assms(1)] obtain evs where
    E: "new_events w w' = ClockRead (fst (time_Now env (remote w))) # evs" and
    wt: "wait_trace (wfr_timeout opts) (wfr_deadline env opts w)
             (next_interval (wfr_useExponentialBackoff opts) (wfr_backoffMultiplier opts)
                (wfr_maxInterval opts))
             (wfr_interval opts) evs out"
    by blast
  from assms(2,3) have k: "0 < k" "k - 1 < length evs" "evs ! (k - 1) = ClientGet nm (Inl err)"
    by (auto simp: E nth_Cons split: nat.splits)
  from wait_trace_failed[OF wt k(2,3)] k(1) have "out = Returned (Some err)"
    "Suc k = length (new_events w w')"
    by (auto simp: E)
  moreover have "fst (RefreshInfo env d0 w0) = Some e \<and> fst (snd (RefreshInfo env d0 w0)) = d0 \<and>
       cache (snd (snd (RefreshInfo env d0 w0))) = cache w0"
    if "fst (client_Get env (Name d0) (remote w0)) = Inl e" for d0 e and w0 :: "'r world"
    using that by (simp add: RefreshInfo_def call_Get_eq Name_def)
  ultimately show ?thesis by blast
qed

text \<open>Claim C7 at a concrete input: the first fetch is refused.\<close>

theorem WaitForReady_refresh_error_witness:
  "new_events empty_world
     (snd (snd (WaitForReady 3 example_down default_options example_box empty_world))) =
     [ClockRead 0, ClockRead 1000000000,
      ClientGet ''abc'' (Inl (TransportError ''connection refused''))] \<and>
   fst (WaitForReady 3 example_down default_options example_box empty_world) =
     Returned (Some (TransportError ''connection refused''))"
proof -
  define R where "R = WaitForReady 3 example_down default_options example_box empty_world"
  have run: "WaitForReady 3 example_down default_options example_box empty_world =
      (fst R, fst (snd R), snd (snd R))"
    by (simp add: R_def)
  have ev: "new_events empty_world (snd (snd R)) =
     [ClockRead 0, ClockRead 1000000000,
      ClientGet ''abc'' (Inl (TransportError ''connection refused''))]"
    unfolding R_def by code_simp
  then have at: "2 < length (new_events empty_world (snd (snd R)))"
    "new_events empty_world (snd (snd R)) ! 2 =
       ClientGet ''abc'' (Inl (TransportError ''connection refused''))"
    by simp_all
  from WaitForReady_refresh_error [OF run at] ev
  show ?thesis by (simp add: R_def)
qed

text \<open>
  Claim C8: \<^verbatim>\<open>Delete\<close> returns what the client's delete returns. When that is \<^verbatim>\<open>nil\<close> the
  cache afterwards is the cache before without the entry of the handle's name; when it is an
  error the cache afterwards is the cache before, so the entry of that name is as it was.
\<close>

theorem Delete_cache_only_on_success:
  assumes "Delete env d w = (res, d', w')"
  shows "res = fst (client_Delete env (Name d) (remote w)) \<and>
         (res = None \<longrightarrow> cache w' = (cache w)(Name d := None)) \<and>
         (res \<noteq> None \<longrightarrow> cache w' = cache w)"
  using assms by (cases rule: Delete_cases) (auto simp: Name_def)

text \<open>Claim C8 at a concrete input: a refused delete keeps the entry of \<^verbatim>\<open>abc\<close>, an accepted one removes it.\<close>

theorem Delete_cache_only_on_success_witness:
  "fst (Delete example_down example_box cached_world) = Some (TransportError ''connection refused'') \<and>
   cache (snd (snd (Delete example_down example_box cached_world))) ''abc'' = Some example_crd \<and>
   fst (Delete example_up example_box cached_world) = None \<and>
   cache (snd (snd (Delete example_up example_box cached_world))) ''abc'' = None"
proof -
  have nm: "Name example_box = ''abc''"
    by (simp add: Name_def example_box_def example_crd_def)
  have down: "fst (client_Delete example_down ''abc'' (remote cached_world)) =
      Some (TransportError ''connection refused'')"
    by (simp add: example_down_def)
  have up: "fst (client_Delete example_up ''abc'' (remote cached_world)) = None"
    by (simp add: example_up_def)
  from Delete_cache_only_on_success [of example_down example_box cached_world
      "fst (Delete example_down example_box cached_world)"
      "fst (snd (Delete example_down example_box cached_world))"
      "snd (snd (Delete example_down example_box cached_world))"]
    Delete_cache_only_on_success [of example_up example_box cached_world
      "fst (Delete example_up example_box cached_world)"
      "fst (snd (Delete example_up example_box cached_world))"
      "snd (snd (Delete example_up example_box cached_world))"]
    nm down up
  show ?thesis by (simp add: cached_world_def)
qed

text \<open>
  Claim C9: \<^verbatim>\<open>CreateRelease\<close> sends the client exactly one creation request, whose name is
  the parent's name, a hyphen and the version of the configuration, and whose spec carries
  the parent's name and the version. For the parent \<^verbatim>\<open>abc\<close> and the version \<^verbatim>\<open>1.0\<close> the name
  of the request is \<^verbatim>\<open>abc-1.0\<close>.
\<close>

theorem CreateRelease_request_name:
  "\<exists>req res. new_events w (snd (snd (CreateRelease env cfg d w))) = [ClientCreateRelease req res] \<and>
      rel_Name req = Name d @ ''-'' @ cfg_Version cfg \<and>
      rspec_DevboxName (rel_Spec req) = Name d \<and>
      rspec_Version (rel_Spec req) = cfg_Version cfg \<and>
      (Name d = ''abc'' \<and> cfg_Version cfg = ''1.0'' \<longrightarrow> rel_Name req = ''abc-1.0'')"
  by (cases "fst (client_CreateRelease env
        \<lparr>rel_Name = crd_Name (crd d) @ ''-'' @ cfg_Version cfg,
             rel_Spec = \<lparr>rspec_DevboxName = crd_Name (crd d),
                         rspec_Version = cfg_Version cfg,
                         rspec_Notes = cfg_Notes cfg,
                         rspec_StartDevboxAfterRelease = cfg_StartDevboxAfterRelease cfg\<rparr>,
             rel_Status = \<lparr>rstatus_Phase = [], rstatus_SourceImage = [],
                           rstatus_TargetImage = []\<rparr>\<rparr> (remote w))")
     (simp_all add: CreateRelease_def call_CreateRelease_eq new_events_def Name_def Let_def)

text \<open>Claim C9 at a concrete input: parent \<^verbatim>\<open>abc\<close>, version \<^verbatim>\<open>1.0\<close>.\<close>

theorem CreateRelease_request_name_witness:
  "\<exists>req res. new_events empty_world
       (snd (snd (CreateRelease example_up example_release example_box empty_world))) =
         [ClientCreateRelease req res] \<and> rel_Name req = ''abc-1.0''"
proof -
  have nm: "Name example_box = ''abc''" "cfg_Version example_release = ''1.0''"
    by (simp_all add: Name_def example_box_def example_crd_def example_release_def)
  from CreateRelease_request_name [of empty_world example_up example_release example_box] nm
  show ?thesis by auto
qed

text \<open>
  Claim C10: after \<^verbatim>\<open>Start\<close>, \<^verbatim>\<open>Pause\<close>, \<^verbatim>\<open>Stop\<close> and \<^verbatim>\<open>Shutdown\<close>, successful or not,
  the handle is the handle it was before, so every accessor returns what it returned before
  the call. A successful \<^verbatim>\<open>RefreshInfo\<close> is what replaces the snapshot: with the record
  that the client has fetched.
\<close>

theorem mutations_keep_snapshot:
  "fst (snd (Start env d w)) = d \<and> fst (snd (Pause env d w)) = d \<and>
   fst (snd (Stop env d w)) = d \<and> fst (snd (Shutdown env d w)) = d \<and>
   (\<forall>devbox. fst (client_Get env (Name d) (remote w)) = Inr devbox \<longrightarrow>
      CRD (fst (snd (RefreshInfo env d w))) = devbox)"
  by (simp add: Start_def Pause_def Stop_def Shutdown_def call_UpdateState_eq RefreshInfo_def
      call_Get_eq Name_def CRD_def)

text \<open>Claim C10 at a concrete input: a pending devbox is still pending after a start, and a refresh installs the fetched record.\<close>

theorem mutations_keep_snapshot_witness:
  "fst (snd (Start example_up example_box empty_world)) = example_box \<and>
   Status (fst (snd (Start example_up example_box empty_world))) = ''Pending'' \<and>
   CRD (fst (snd (RefreshInfo example_up example_box empty_world))) = example_crd"
proof -
  have "fst (client_Get example_up (Name example_box) (remote empty_world)) = Inr example_crd"
    by (simp add: example_up_def)
  with mutations_keep_snapshot [of example_up example_box empty_world] show ?thesis
    by (simp add: Status_def example_box_def example_crd_def)
qed

end
